theory Spec2Isabelle
  imports Main "HOL-Library.AList"
begin

section \<open>JavaScript values\<close>

text \<open>
  Strings are lists of code units (Isabelle's \<open>char\<close> covers the code units 0..255).
  A thrown exception or a rejected promise is the left summand of a result.
  \<open>Error msg\<close> is \<open>new Error(msg)\<close>; \<open>TypeError\<close> is what the runtime throws for an
  unparsable URL and for a property read on \<open>undefined\<close> or \<open>null\<close>; \<open>SyntaxError\<close> is what
  parsing a malformed JSON body throws.
\<close>

datatype js_error = Error string | TypeError | SyntaxError

text \<open>
  The values \<open>response.json()\<close> can produce, plus \<open>undefined\<close>. An object is the list of
  its own properties, each key once. The type of numbers is left open: the code never
  computes with one.
\<close>

datatype 'n js_value =
    Undefined
  | Null
  | Boolean bool
  | Number 'n
  | String string
  | Array "'n js_value list"
  | Object "(string \<times> 'n js_value) list"

text \<open>
  \<open>v.name\<close> for a name that is neither an array index nor a built-in property
  (\<open>response\<close>, \<open>players\<close>): reading it from \<open>undefined\<close> or \<open>null\<close> throws, an object gives
  its own property or \<open>undefined\<close>, every other value gives \<open>undefined\<close>.
\<close>

fun get_member :: "'n js_value \<Rightarrow> string \<Rightarrow> js_error + 'n js_value" where
  "get_member Undefined name = Inl TypeError"
| "get_member Null name = Inl TypeError"
| "get_member (Object props) name =
     Inr (case map_of props name of None \<Rightarrow> Undefined | Some v \<Rightarrow> v)"
| "get_member v name = Inr Undefined"

text \<open>
  \<open>v[0]\<close>: the first element of an array or \<open>undefined\<close> when the array is empty (JavaScript
  does not throw on an out-of-range index), the first code unit of a string, the own
  property \<open>"0"\<close> of an object.
\<close>

fun get_index0 :: "'n js_value \<Rightarrow> js_error + 'n js_value" where
  "get_index0 Undefined = Inl TypeError"
| "get_index0 Null = Inl TypeError"
| "get_index0 (Array []) = Inr Undefined"
| "get_index0 (Array (x # xs)) = Inr x"
| "get_index0 (String []) = Inr Undefined"
| "get_index0 (String (c # cs)) = Inr (String [c])"
| "get_index0 (Object props) =
     Inr (case map_of props ''0'' of None \<Rightarrow> Undefined | Some v \<Rightarrow> v)"
| "get_index0 v = Inr Undefined"

section \<open>The platform: URL, URLSearchParams, fetch\<close>

type_synonym params = "(string \<times> string) list"

text \<open>
  What the code reads from a parsed \<open>URL\<close>: \<open>href\<close>, \<open>origin\<close> and the decoded query pairs
  \<open>searchParams\<close>, in order.
\<close>

record URL =
  href :: string
  origin :: string
  searchParams :: params

text \<open>
  The runtime's URL constructor (\<open>None\<close>: it throws a TypeError) and the serialiser
  \<open>URLSearchParams.prototype.toString\<close> are parameters of the model.
\<close>

record platform =
  new_URL :: "string \<Rightarrow> URL option"
  toString :: "params \<Rightarrow> string"

datatype http_method = GET | POST

record http_request =
  rq_url :: string
  rq_method :: http_method
  rq_headers :: params
  rq_body :: "string option"

text \<open>
  A \<open>Response\<close> as the code uses it: \<open>text()\<close> and \<open>json()\<close>, each of which may reject.
  \<open>fetch\<close> itself may reject as well. Every operation below returns its result together
  with the list of requests it handed to \<open>fetch\<close>, in order.
\<close>

record 'n Response =
  res_text :: "js_error + string"
  res_json :: "js_error + 'n js_value"

type_synonym 'n fetch = "http_request \<Rightarrow> js_error + 'n Response"

text \<open>\<open>searchParams.get(name)\<close>: the value of the first pair with that name, or \<open>null\<close>.\<close>

definition get :: "params \<Rightarrow> string \<Rightarrow> string option" where
  "get sp name = map_of sp name"

text \<open>\<open>v || ''\<close> for a \<open>string | null\<close>: \<open>null\<close> and the empty string are falsy.\<close>

definition or_empty :: "string option \<Rightarrow> string" where
  "or_empty v = (case v of None \<Rightarrow> [] | Some s \<Rightarrow> if s = [] then [] else s)"

text \<open>\<open>s.split(sep)\<close> for a one-character separator; \<open>''.split(',')\<close> is \<open>['']\<close>.\<close>

fun split :: "string \<Rightarrow> char \<Rightarrow> string list" where
  "split [] sep = [[]]"
| "split (c # cs) sep =
     (if c = sep then [] # split cs sep
      else (case split cs sep of [] \<Rightarrow> [[c]] | p # ps \<Rightarrow> (c # p) # ps))"

text \<open>The template literal \<open>`${n}`\<close> for a length: decimal digits.\<close>

fun decimal :: "nat \<Rightarrow> string" where
  "decimal n =
     (if n < 10 then [''0123456789'' ! n]
      else decimal (n div 10) @ [''0123456789'' ! (n mod 10)])"

section \<open>Regular expressions of the verifier\<close>

fun match_literal :: "string \<Rightarrow> string \<Rightarrow> string option" where
  "match_literal [] s = Some s"
| "match_literal (p # ps) [] = None"
| "match_literal (p # ps) (c # cs) = (if p = c then match_literal ps cs else None)"

text \<open>
  The \<open>i\<close> flag (without \<open>u\<close>) compares canonicalised code units; a code unit outside
  ASCII never canonicalises to an ASCII letter, so against an ASCII pattern only the
  letters a-z and A-Z are identified.
\<close>

definition ascii_upper :: "char \<Rightarrow> char" where
  "ascii_upper c =
     (case map_of (zip ''abcdefghijklmnopqrstuvwxyz'' ''ABCDEFGHIJKLMNOPQRSTUVWXYZ'') c of
        None \<Rightarrow> c | Some u \<Rightarrow> u)"

fun match_literal_i :: "string \<Rightarrow> string \<Rightarrow> string option" where
  "match_literal_i [] s = Some s"
| "match_literal_i (p # ps) [] = None"
| "match_literal_i (p # ps) (c # cs) =
     (if ascii_upper p = ascii_upper c then match_literal_i ps cs else None)"

text \<open>\<open>\s\<close>: tab, line feed, vertical tab, form feed, carriage return, space, no-break space.\<close>

definition is_space :: "char \<Rightarrow> bool" where
  "is_space c =
     (c \<in> set [CHR 0x09, CHR 0x0A, CHR 0x0B, CHR 0x0C, CHR 0x0D, CHR 0x20, CHR 0xA0])"

text \<open>\<open>\d\<close>\<close>

definition is_digit :: "char \<Rightarrow> bool" where
  "is_digit c = (c \<in> set ''0123456789'')"

text \<open>
  \<open>/is_valid\s*:\s*true/i\<close> tried at the start of \<open>s\<close>. The character after each \<open>\s*\<close> is
  not a space, so the greedy run is the only way to match.
\<close>

definition is_valid_here :: "string \<Rightarrow> bool" where
  "is_valid_here s =
     (case match_literal_i ''is_valid'' s of
        None \<Rightarrow> False
      | Some r \<Rightarrow>
          (case dropWhile is_space r of
             [] \<Rightarrow> False
           | c # r2 \<Rightarrow>
               c = CHR '':'' \<and>
               (case match_literal_i ''true'' (dropWhile is_space r2) of
                  None \<Rightarrow> False
                | Some r3 \<Rightarrow> True)))"

text \<open>\<open>result.match(/is_valid\s*:\s*true/i)\<close> is truthy: the pattern matches at some position.\<close>

fun is_valid_match :: "string \<Rightarrow> bool" where
  "is_valid_match [] = False"
| "is_valid_match (c # cs) = (is_valid_here (c # cs) \<or> is_valid_match cs)"

text \<open>\<open>:\/\/steamcommunity\.com\/openid\/id\/(\d+)$\<close>, returning the group.\<close>

definition identifier_tail :: "string \<Rightarrow> string option" where
  "identifier_tail s =
     (case match_literal ''://steamcommunity.com/openid/id/'' s of
        None \<Rightarrow> None
      | Some d \<Rightarrow> if d \<noteq> [] \<and> list_all is_digit d then Some d else None)"

text \<open>
  \<open>cid.match(/^https?:\/\/steamcommunity\.com\/openid\/id\/(\d+)$/)\<close>: \<open>Some\<close> of the group
  \<open>matches[1]\<close>, or \<open>None\<close> for \<open>null\<close>. The optional \<open>s\<close> is tried first, as the greedy
  quantifier does.
\<close>

definition IDENTIFIER_PATTERN :: "string \<Rightarrow> string option" where
  "IDENTIFIER_PATTERN cid =
     (case match_literal ''http'' cid of
        None \<Rightarrow> None
      | Some r \<Rightarrow>
          (case (case r of [] \<Rightarrow> None
                 | c # t \<Rightarrow> if c = CHR ''s'' then identifier_tail t else None) of
             Some d \<Rightarrow> Some d
           | None \<Rightarrow> identifier_tail r))"

section \<open>verifyAssertion\<close>

text \<open>
  The loop over \<open>signed.split(',')\<close>: each step assigns
  \<open>token_params[`openid.${val}`] = searchParams.get(`openid.${val}`) || ''\<close>.
  An object keeps its string keys in insertion order; assigning an existing key
  replaces the value in place.
\<close>

definition token_params :: "params \<Rightarrow> string \<Rightarrow> params" where
  "token_params sp signed =
     foldl (\<lambda>obj val.
              AList.update (''openid.'' @ val) (or_empty (get sp (''openid.'' @ val))) obj)
       [] (split signed CHR '','')"

text \<open>
  \<open>new URLSearchParams({ ...five literal properties, ...token_params })\<close>: the spread
  assigns the properties of \<open>token_params\<close> after the literal ones.
\<close>

definition token_url_params :: "params \<Rightarrow> params" where
  "token_url_params sp =
     (let signed = or_empty (get sp ''openid.signed'') in
      foldl (\<lambda>obj (k, v). AList.update k v obj)
        [(''openid.assoc_handle'', or_empty (get sp ''openid.assoc_handle'')),
         (''openid.signed'', signed),
         (''openid.sig'', or_empty (get sp ''openid.sig'')),
         (''openid.ns'', ''http://specs.openid.net/auth/2.0''),
         (''openid.mode'', ''check_authentication'')]
        (token_params sp signed))"

text \<open>The POST handed to \<open>fetch\<close>: \<open>token_url\<close> with its search set, the headers, the body.\<close>

definition check_authentication_request :: "platform \<Rightarrow> params \<Rightarrow> http_request" where
  "check_authentication_request P tup =
     \<lparr> rq_url = ''https://steamcommunity.com/openid/login?'' @ toString P tup,
       rq_method = POST,
       rq_headers =
         [(''Accept-language'', ''en''),
          (''Content-type'', ''application/x-www-form-urlencoded''),
          (''Content-Length'', decimal (length (toString P tup)))],
       rq_body = Some (toString P tup) \<rparr>"

text \<open>
  \<open>verifyAssertion(url)\<close>: \<open>Inr (Some id)\<close> is the returned identifier, \<open>Inr None\<close> is
  \<open>null\<close>, \<open>Inl e\<close> is a rejection.
\<close>

definition verifyAssertion ::
  "platform \<Rightarrow> 'n fetch \<Rightarrow> string \<Rightarrow> (js_error + string option) \<times> http_request list" where
  "verifyAssertion P fetch url =
     (if url = [] then (Inr None, [])
      else
        (case new_URL P url of
           None \<Rightarrow> (Inl TypeError, [])
         | Some u \<Rightarrow>
             (let tup = token_url_params (searchParams u);
                  rq = check_authentication_request P tup
              in (case fetch rq of
                    Inl e \<Rightarrow> (Inl e, [rq])
                  | Inr token_res \<Rightarrow>
                      (case res_text token_res of
                         Inl e \<Rightarrow> (Inl e, [rq])
                       | Inr result \<Rightarrow>
                           (if is_valid_match result
                            then (case get tup ''openid.claimed_id'' of
                                    None \<Rightarrow> (Inr None, [rq])
                                  | Some cid \<Rightarrow> (Inr (IDENTIFIER_PATTERN cid), [rq]))
                            else (Inr None, [rq])))))))"

section \<open>The Steam provider\<close>

definition PROVIDER_NAME :: string where "PROVIDER_NAME = ''Steam''"
definition PROVIDER_ID :: string where "PROVIDER_ID = ''steam''"
definition EMAIL_DOMAIN :: string where "EMAIL_DOMAIN = ''steamcommunity.com''"

record AuthorizationParams =
  authorization_url :: string
  authorization_params :: params

definition getAuthorizationParams :: "string \<Rightarrow> string \<Rightarrow> AuthorizationParams" where
  "getAuthorizationParams redirect realm =
     \<lparr> authorization_url = ''https://steamcommunity.com/openid/login'',
       authorization_params =
         [(''openid.mode'', ''checkid_setup''),
          (''openid.ns'', ''http://specs.openid.net/auth/2.0''),
          (''openid.identity'', ''http://specs.openid.net/auth/2.0/identifier_select''),
          (''openid.claimed_id'', ''http://specs.openid.net/auth/2.0/identifier_select''),
          (''openid.return_to'', redirect),
          (''openid.realm'', realm)] \<rparr>"

text \<open>The style record; its \<open>text\<close> property is the field \<open>text_colour\<close> here.\<close>

record ProviderStyle =
  bg :: string
  text_colour :: string
  bgDark :: string
  textDark :: string

definition getProviderStyle :: ProviderStyle where
  "getProviderStyle =
     \<lparr> bg = ''#121212'', text_colour = ''#fff'', bgDark = ''#000'', textDark = ''#fff'' \<rparr>"

text \<open>
  The options the provider reads. \<open>clientSecret\<close> is \<open>None\<close> when the property is
  \<open>undefined\<close> at run time (an unset environment variable).
\<close>

record SteamProviderOptions =
  callbackUrl :: string
  clientSecret :: "string option"

text \<open>The request object: only \<open>req.url\<close> is read, and it may be \<open>undefined\<close>.\<close>

record Request =
  url :: "string option"

record TokenSet =
  id_token :: string
  access_token :: string
  steamId :: string

text \<open>What \<open>userinfo.request\<close> reads from its context.\<close>

record Context =
  provider_clientSecret :: string
  tokens_steamId :: string

text \<open>\<open>!v\<close> for a \<open>string | undefined\<close>.\<close>

definition falsy :: "string option \<Rightarrow> bool" where
  "falsy v = (case v of None \<Rightarrow> True | Some s \<Rightarrow> s = [])"

text \<open>\<open>v.length < 1\<close>, reached only when \<open>v\<close> is a string.\<close>

definition length_below_1 :: "string option \<Rightarrow> bool" where
  "length_below_1 v = (case v of None \<Rightarrow> False | Some s \<Rightarrow> length s < 1)"

text \<open>
  \<open>token.request()\<close> of the returned configuration, closed over \<open>req\<close>. \<open>!req.url\<close> and
  \<open>!identifier\<close> hold for \<open>undefined\<close>, \<open>null\<close> and the empty string. \<open>uuidv4 k\<close> is the
  value of the \<open>k\<close>-th call of the random identifier generator.
\<close>

definition Steam_token_request ::
  "platform \<Rightarrow> Request \<Rightarrow> 'n fetch \<Rightarrow> (nat \<Rightarrow> string) \<Rightarrow>
     (js_error + TokenSet) \<times> http_request list" where
  "Steam_token_request P req fetch uuidv4 =
     (case url req of
        None \<Rightarrow> (Inl (Error ''No URL found in request object''), [])
      | Some u \<Rightarrow>
          if u = [] then (Inl (Error ''No URL found in request object''), [])
          else
            (case verifyAssertion P fetch u of
               (Inl e, sent) \<Rightarrow> (Inl e, sent)
             | (Inr identifier, sent) \<Rightarrow>
                 (case identifier of
                    None \<Rightarrow> (Inl (Error ''Unauthenticated''), sent)
                  | Some i \<Rightarrow>
                      if i = [] then (Inl (Error ''Unauthenticated''), sent)
                      else
                        (Inr \<lparr> id_token = uuidv4 0, access_token = uuidv4 1, steamId = i \<rparr>,
                         sent))))"

text \<open>The GET handed to \<open>fetch\<close> by \<open>userinfo.request\<close>: the URL with \<open>key\<close> and \<open>steamids\<close> set.\<close>

definition profile_request :: "platform \<Rightarrow> Context \<Rightarrow> http_request" where
  "profile_request P context =
     \<lparr> rq_url =
         ''https://api.steampowered.com/ISteamUser/GetPlayerSummaries/v0002?'' @
         toString P [(''key'', provider_clientSecret context),
                     (''steamids'', tokens_steamId context)],
       rq_method = GET,
       rq_headers = [],
       rq_body = None \<rparr>"

text \<open>
  \<open>userinfo.request(context)\<close> of the returned configuration: it returns
  \<open>data.response.players[0]\<close>, whatever that is.
\<close>

definition Steam_userinfo_request ::
  "platform \<Rightarrow> 'n fetch \<Rightarrow> Context \<Rightarrow> (js_error + 'n js_value) \<times> http_request list" where
  "Steam_userinfo_request P fetch context =
     (let rq = profile_request P context
      in (case fetch rq of
            Inl e \<Rightarrow> (Inl e, [rq])
          | Inr response \<Rightarrow>
              (case res_json response of
                 Inl e \<Rightarrow> (Inl e, [rq])
               | Inr data \<Rightarrow>
                   (case get_member data ''response'' of
                      Inl e \<Rightarrow> (Inl e, [rq])
                    | Inr r \<Rightarrow>
                        (case get_member r ''players'' of
                           Inl e \<Rightarrow> (Inl e, [rq])
                         | Inr players \<Rightarrow> (get_index0 players, [rq]))))))"

record 'n OAuthConfig =
  authorization :: AuthorizationParams
  token :: "'n fetch \<Rightarrow> (nat \<Rightarrow> string) \<Rightarrow> (js_error + TokenSet) \<times> http_request list"
  userinfo :: "'n fetch \<Rightarrow> Context \<Rightarrow> (js_error + 'n js_value) \<times> http_request list"
  provider_id :: string
  provider_name :: string
  provider_type :: string
  idToken :: bool
  checks :: "string list"
  clientId :: string
  options :: SteamProviderOptions
  style :: ProviderStyle

text \<open>
  \<open>Steam(req, options)\<close>. The callback URL is parsed first, then the secret is checked;
  nothing on this path calls \<open>fetch\<close>, so the list of requests is empty in every branch.
\<close>

definition Steam ::
  "platform \<Rightarrow> Request \<Rightarrow> SteamProviderOptions \<Rightarrow>
     (js_error + 'n OAuthConfig) \<times> http_request list" where
  "Steam P req opts =
     (case new_URL P (callbackUrl opts) of
        None \<Rightarrow> (Inl TypeError, [])
      | Some cb \<Rightarrow>
          (let realm = origin cb;
               returnTo = href cb @ ''/'' @ PROVIDER_ID
           in if falsy (clientSecret opts) \<or> length_below_1 (clientSecret opts)
              then (Inl (Error ''Steam API key is missing''), [])
              else
                (Inr \<lparr> authorization = getAuthorizationParams returnTo realm,
                       token = Steam_token_request P req,
                       userinfo = Steam_userinfo_request P,
                       provider_id = PROVIDER_ID,
                       provider_name = PROVIDER_NAME,
                       provider_type = ''oauth'',
                       idToken = False,
                       checks = [''none''],
                       clientId = PROVIDER_ID,
                       options = opts,
                       style = getProviderStyle \<rparr>,
                 [])))"

section \<open>A concrete platform for the examples\<close>

text \<open>
  The \<open>application/x-www-form-urlencoded\<close> serialiser: ASCII letters, digits and
  \<open>*-._\<close> are kept, a space becomes \<open>+\<close>, every other code unit is percent-encoded
  (through UTF-8 above 0x7F).
\<close>

definition urlencode_byte :: "nat \<Rightarrow> string" where
  "urlencode_byte n =
     [CHR ''%'', ''0123456789ABCDEF'' ! (n div 16), ''0123456789ABCDEF'' ! (n mod 16)]"

definition urlencode_char :: "char \<Rightarrow> string" where
  "urlencode_char c =
     (if c \<in> set ''*-._0123456789ABCDEFGHIJKLMNOPQRSTUVWXYZabcdefghijklmnopqrstuvwxyz''
      then [c]
      else if c = CHR '' '' then ''+''
      else (let n = (of_char c :: nat)
            in if n < 128 then urlencode_byte n
               else urlencode_byte (192 + n div 64) @ urlencode_byte (128 + n mod 64)))"

fun urlencoded :: "params \<Rightarrow> string" where
  "urlencoded [] = []"
| "urlencoded [(k, v)] = concat (map urlencode_char k) @ ''='' @ concat (map urlencode_char v)"
| "urlencoded ((k, v) # ps) =
     concat (map urlencode_char k) @ ''='' @ concat (map urlencode_char v) @ ''&'' @
     urlencoded ps"

text \<open>Callback URLs as the identity provider's redirect produces them.\<close>

definition callback_steam :: string where
  "callback_steam =
     ''https://app.example/api/auth/callback/steam?openid.signed=claimed_id%2Cidentity&openid.claimed_id=https%3A%2F%2Fsteamcommunity.com%2Fopenid%2Fid%2F76561197960287930''"

definition callback_evil :: string where
  "callback_evil =
     ''https://app.example/api/auth/callback/steam?openid.signed=claimed_id&openid.claimed_id=https%3A%2F%2Fevil.example%2Fopenid%2Fid%2F123''"

definition callback_unsigned :: string where
  "callback_unsigned =
     ''https://app.example/api/auth/callback/steam?openid.claimed_id=https%3A%2F%2Fsteamcommunity.com%2Fopenid%2Fid%2F76561197960287930''"

definition callback_mode_signed :: string where
  "callback_mode_signed =
     ''https://app.example/api/auth/callback/steam?openid.signed=mode%2Cns&openid.mode=id_res''"

definition callback_base :: string where
  "callback_base = ''https://app.example/api/auth/callback''"

text \<open>
  The URL constructor on these five URLs (query values percent-decoded); the example
  platform knows no other string, and in particular not \<open>''not a url''\<close>, which has no
  scheme.
\<close>

definition example_new_URL :: "string \<Rightarrow> URL option" where
  "example_new_URL s =
     (if s = callback_steam then
        Some \<lparr> href = s, origin = ''https://app.example'',
               searchParams =
                 [(''openid.signed'', ''claimed_id,identity''),
                  (''openid.claimed_id'',
                   ''https://steamcommunity.com/openid/id/76561197960287930'')] \<rparr>
      else if s = callback_evil then
        Some \<lparr> href = s, origin = ''https://app.example'',
               searchParams =
                 [(''openid.signed'', ''claimed_id''),
                  (''openid.claimed_id'', ''https://evil.example/openid/id/123'')] \<rparr>
      else if s = callback_unsigned then
        Some \<lparr> href = s, origin = ''https://app.example'',
               searchParams =
                 [(''openid.claimed_id'',
                   ''https://steamcommunity.com/openid/id/76561197960287930'')] \<rparr>
      else if s = callback_mode_signed then
        Some \<lparr> href = s, origin = ''https://app.example'',
               searchParams =
                 [(''openid.signed'', ''mode,ns''), (''openid.mode'', ''id_res'')] \<rparr>
      else if s = callback_base then
        Some \<lparr> href = s, origin = ''https://app.example'', searchParams = [] \<rparr>
      else None)"

definition example_platform :: platform where
  "example_platform = \<lparr> new_URL = example_new_URL, toString = urlencoded \<rparr>"

text \<open>An identity provider that answers every request with the given body.\<close>

definition idp_answering :: "string \<Rightarrow> 'n fetch" where
  "idp_answering body = (\<lambda>rq. Inr \<lparr> res_text = Inr body, res_json = Inl SyntaxError \<rparr>)"

definition body_valid :: string where
  "body_valid =
     ''ns:http://specs.openid.net/auth/2.0'' @ [CHR 0x0A] @ ''is_valid:true'' @ [CHR 0x0A]"

definition body_invalid :: string where
  "body_invalid =
     ''ns:http://specs.openid.net/auth/2.0'' @ [CHR 0x0A] @ ''is_valid:false'' @ [CHR 0x0A]"

text \<open>A profile API that answers every request with the given parsed JSON document.\<close>

definition profile_api_answering :: "'n js_value \<Rightarrow> 'n fetch" where
  "profile_api_answering data = (\<lambda>rq. Inr \<lparr> res_text = Inr [], res_json = Inr data \<rparr>)"

definition no_players :: "'n js_value" where
  "no_players = Object [(''response'', Object [(''players'', Array [])])]"

definition example_uuidv4 :: "nat \<Rightarrow> string" where
  "example_uuidv4 k =
     (if k = 0 then ''1b9d6bcd-bbfd-4b2d-9b5d-ab8dfbbd4bed''
      else ''9b1deb4d-3b7d-4bad-9bdd-2b0d7b3dcb6d'')"

section \<open>Properties of the building blocks\<close>

declare decimal.simps [simp del]

lemma or_empty_eq: "or_empty v = (case v of None \<Rightarrow> [] | Some s \<Rightarrow> s)"
  by (simp add: or_empty_def split: option.splits)

lemma match_literal_iff: "match_literal p s = Some r \<longleftrightarrow> s = p @ r"
  by (induction p s rule: match_literal.induct) auto

lemma identifier_tail_iff:
  "identifier_tail s = Some d \<longleftrightarrow>
     s = ''://steamcommunity.com/openid/id/'' @ d \<and> d \<noteq> [] \<and> list_all is_digit d"
proof (cases "match_literal ''://steamcommunity.com/openid/id/'' s")
  case None
  then have "s \<noteq> ''://steamcommunity.com/openid/id/'' @ d"
    using match_literal_iff [of "''://steamcommunity.com/openid/id/''" s d] by simp
  with None show ?thesis by (simp add: identifier_tail_def)
next
  case (Some r)
  then have "s = ''://steamcommunity.com/openid/id/'' @ r"
    by (simp only: match_literal_iff)
  with Some show ?thesis by (auto simp add: identifier_tail_def)
qed

lemma identifier_tail_s: "identifier_tail (CHR ''s'' # t) = None"
  by (simp add: identifier_tail_def)

lemma identifier_tail_Nil: "identifier_tail [] = None"
  by (simp add: identifier_tail_def)

lemma IDENTIFIER_PATTERN_http:
  "IDENTIFIER_PATTERN (''http'' @ r) =
     (case r of [] \<Rightarrow> None
      | c # t \<Rightarrow> if c = CHR ''s'' then identifier_tail t else identifier_tail r)"
  by (cases r)
     (auto simp add: IDENTIFIER_PATTERN_def identifier_tail_s identifier_tail_Nil
           split: option.splits)

lemma IDENTIFIER_PATTERN_iff:
  "IDENTIFIER_PATTERN cid = Some d \<longleftrightarrow>
     (cid = ''https://steamcommunity.com/openid/id/'' @ d \<or>
      cid = ''http://steamcommunity.com/openid/id/'' @ d) \<and>
     d \<noteq> [] \<and> list_all is_digit d"
proof (cases "match_literal ''http'' cid")
  case None
  then have "cid \<noteq> ''http'' @ r" for r
    using match_literal_iff [of "''http''" cid r] by simp
  from this [of "''s://steamcommunity.com/openid/id/'' @ d"]
       this [of "''://steamcommunity.com/openid/id/'' @ d"] None
  show ?thesis by (simp add: IDENTIFIER_PATTERN_def)
next
  case (Some r)
  then have cid: "cid = ''http'' @ r"
    by (simp only: match_literal_iff)
  show ?thesis
  proof (cases r)
    case Nil
    then show ?thesis unfolding cid IDENTIFIER_PATTERN_http by simp
  next
    case (Cons c t)
    show ?thesis
    proof (cases "c = CHR ''s''")
      case True
      with Cons show ?thesis
        unfolding cid IDENTIFIER_PATTERN_http by (simp add: identifier_tail_iff)
    next
      case False
      with Cons show ?thesis
        unfolding cid IDENTIFIER_PATTERN_http by (auto simp add: identifier_tail_iff)
    qed
  qed
qed

lemma is_valid_here_literal: "is_valid_here (''is_valid:true'' @ post)"
  by (simp add: is_valid_here_def ascii_upper_def is_space_def)

lemma is_valid_match_here: "is_valid_here s \<Longrightarrow> is_valid_match s"
  by (cases s) (simp_all add: is_valid_here_def)

lemma is_valid_match_contains: "is_valid_match (pre @ ''is_valid:true'' @ post)"
proof (induction pre)
  case Nil
  show ?case using is_valid_match_here [OF is_valid_here_literal [of post]] by simp
next
  case (Cons c pre)
  then show ?case by simp
qed

subsection \<open>Objects as association lists\<close>

lemma foldl_echo:
  "map_of (foldl (\<lambda>obj val. AList.update (k val) (f (k val)) obj) obj0 vals) =
     (\<lambda>x. if x \<in> k ` set vals then Some (f x) else map_of obj0 x)"
proof (induction vals arbitrary: obj0)
  case Nil
  show ?case by simp
next
  case (Cons v vs)
  show ?case
    unfolding foldl_Cons Cons.IH
    by (auto simp: update_conv' fun_eq_iff)
qed

lemma map_of_token_params:
  "map_of (token_params sp signed) x =
     (if x \<in> (\<lambda>val. ''openid.'' @ val) ` set (split signed CHR '','')
      then Some (or_empty (get sp x)) else None)"
  unfolding token_params_def
  using foldl_echo [of "\<lambda>val. ''openid.'' @ val" "\<lambda>x. or_empty (get sp x)" "[]" "split signed CHR '',''"]
  by simp

lemma foldl_spread:
  "map_of (foldl (\<lambda>obj (k, v). AList.update k v obj) obj0 tp) = map_of obj0 ++ map_of (rev tp)"
proof (induction tp arbitrary: obj0)
  case Nil
  show ?case by simp
next
  case (Cons p ps)
  obtain k v where p: "p = (k, v)" by (cases p)
  show ?case
    unfolding foldl_Cons Cons.IH p
    by (auto simp: update_conv' fun_eq_iff map_add_def split: option.splits)
qed

lemma set_update_subset: "set (AList.update k v al) \<subseteq> insert (k, v) (set al)"
  by (induction al) auto

lemma foldl_echo_entries:
  "(x, v) \<in> set (foldl (\<lambda>obj val. AList.update (k val) (f (k val)) obj) obj0 vals) \<Longrightarrow>
     (x, v) \<in> set obj0 \<or> v = f x"
proof (induction vals arbitrary: obj0)
  case Nil
  then show ?case by simp
next
  case (Cons a vs)
  from Cons.IH [OF Cons.prems [unfolded foldl_Cons]]
  show ?case using set_update_subset [of "k a" "f (k a)" obj0] by auto
qed

lemma token_params_entries:
  "(x, v) \<in> set (token_params sp signed) \<Longrightarrow> v = or_empty (get sp x)"
  unfolding token_params_def
  using foldl_echo_entries [of x v "\<lambda>val. ''openid.'' @ val" "\<lambda>x. or_empty (get sp x)" "[]"]
  by simp

lemma map_of_rev_determined:
  assumes "\<And>k v. (k, v) \<in> set tp \<Longrightarrow> v = g k"
  shows "map_of (rev tp) x = map_of tp x"
proof (cases "x \<in> fst ` set tp")
  case False
  then have "map_of tp x = None" and "map_of (rev tp) x = None"
    by (simp_all add: map_of_eq_None_iff)
  then show ?thesis by simp
next
  case True
  then obtain v where v: "map_of tp x = Some v"
    by (metis map_of_eq_None_iff not_Some_eq)
  from True have "x \<in> fst ` set (rev tp)" by simp
  then obtain w where w: "map_of (rev tp) x = Some w"
    by (metis map_of_eq_None_iff not_Some_eq)
  from v have "v = g x" using assms map_of_SomeD by fastforce
  moreover from w have "w = g x" using assms map_of_SomeD [of "rev tp" x w] by simp
  ultimately show ?thesis using v w by simp
qed

lemma map_of_token_url_params:
  "map_of (token_url_params sp) x =
     (if x \<in> (\<lambda>val. ''openid.'' @ val) ` set (split (or_empty (get sp ''openid.signed'')) CHR '','')
      then Some (or_empty (get sp x))
      else map_of
             [(''openid.assoc_handle'', or_empty (get sp ''openid.assoc_handle'')),
              (''openid.signed'', or_empty (get sp ''openid.signed'')),
              (''openid.sig'', or_empty (get sp ''openid.sig'')),
              (''openid.ns'', ''http://specs.openid.net/auth/2.0''),
              (''openid.mode'', ''check_authentication'')] x)"
proof -
  have "map_of (rev (token_params sp s)) x = map_of (token_params sp s) x" for s
    by (rule map_of_rev_determined [where g = "\<lambda>x. or_empty (get sp x)"])
       (rule token_params_entries)
  then show ?thesis
    unfolding token_url_params_def Let_def foldl_spread
    by (simp add: map_add_def map_of_token_params)
qed

section \<open>The verifier: results and requests\<close>

subsection \<open>What the verifier returns and sends\<close>

lemma get_token_url_params:
  "get (token_url_params sp) x =
     (if x \<in> (\<lambda>val. ''openid.'' @ val) ` set (split (or_empty (get sp ''openid.signed'')) CHR '','')
      then Some (or_empty (get sp x))
      else map_of
             [(''openid.assoc_handle'', or_empty (get sp ''openid.assoc_handle'')),
              (''openid.signed'', or_empty (get sp ''openid.signed'')),
              (''openid.sig'', or_empty (get sp ''openid.sig'')),
              (''openid.ns'', ''http://specs.openid.net/auth/2.0''),
              (''openid.mode'', ''check_authentication'')] x)"
  unfolding get_def [of "token_url_params sp"] by (rule map_of_token_url_params)

lemma verifyAssertion_answered:
  assumes "callback \<noteq> []"
    and "new_URL P callback = Some u"
    and "fetch (check_authentication_request P (token_url_params (searchParams u))) = Inr token_res"
    and "res_text token_res = Inr result"
  shows "verifyAssertion P fetch callback =
           (Inr (if is_valid_match result
                 then (case get (token_url_params (searchParams u)) ''openid.claimed_id'' of
                         None \<Rightarrow> None
                       | Some cid \<Rightarrow> IDENTIFIER_PATTERN cid)
                 else None),
            [check_authentication_request P (token_url_params (searchParams u))])"
  using assms by (simp add: verifyAssertion_def Let_def split: option.splits)

lemma verifyAssertion_empty: "verifyAssertion P fetch [] = (Inr None, [])"
  by (simp add: verifyAssertion_def)

lemma verifyAssertion_sent:
  "snd (verifyAssertion P fetch callback) =
     (if callback = [] then []
      else (case new_URL P callback of
              None \<Rightarrow> []
            | Some u \<Rightarrow> [check_authentication_request P (token_url_params (searchParams u))]))"
  by (simp add: verifyAssertion_def Let_def split: option.splits sum.splits)

subsection \<open>The example platform\<close>

lemma new_URL_callback_steam:
  "new_URL example_platform callback_steam =
     Some \<lparr> href = callback_steam, origin = ''https://app.example'',
            searchParams =
              [(''openid.signed'', ''claimed_id,identity''),
               (''openid.claimed_id'',
                ''https://steamcommunity.com/openid/id/76561197960287930'')] \<rparr>"
  by (simp add: example_platform_def example_new_URL_def)

lemma new_URL_callback_evil:
  "new_URL example_platform callback_evil =
     Some \<lparr> href = callback_evil, origin = ''https://app.example'',
            searchParams =
              [(''openid.signed'', ''claimed_id''),
               (''openid.claimed_id'', ''https://evil.example/openid/id/123'')] \<rparr>"
  by (simp add: example_platform_def example_new_URL_def callback_steam_def callback_evil_def)

lemma new_URL_callback_unsigned:
  "new_URL example_platform callback_unsigned =
     Some \<lparr> href = callback_unsigned, origin = ''https://app.example'',
            searchParams =
              [(''openid.claimed_id'',
                ''https://steamcommunity.com/openid/id/76561197960287930'')] \<rparr>"
  by (simp add: example_platform_def example_new_URL_def callback_steam_def callback_evil_def
        callback_unsigned_def)

lemma new_URL_callback_mode_signed:
  "new_URL example_platform callback_mode_signed =
     Some \<lparr> href = callback_mode_signed, origin = ''https://app.example'',
            searchParams = [(''openid.signed'', ''mode,ns''), (''openid.mode'', ''id_res'')] \<rparr>"
  by (simp add: example_platform_def example_new_URL_def callback_steam_def callback_evil_def
        callback_unsigned_def callback_mode_signed_def)

lemma new_URL_callback_base:
  "new_URL example_platform callback_base =
     Some \<lparr> href = callback_base, origin = ''https://app.example'', searchParams = [] \<rparr>"
  by (simp add: example_platform_def example_new_URL_def callback_steam_def callback_evil_def
        callback_unsigned_def callback_mode_signed_def callback_base_def)

lemma new_URL_not_a_url: "new_URL example_platform ''not a url'' = None"
  by (simp add: example_platform_def example_new_URL_def callback_steam_def callback_evil_def
        callback_unsigned_def callback_mode_signed_def callback_base_def)

lemma callbacks_nonempty:
  "callback_steam \<noteq> []" "callback_evil \<noteq> []" "callback_unsigned \<noteq> []"
  "callback_mode_signed \<noteq> []"
  by (simp_all add: callback_steam_def callback_evil_def callback_unsigned_def
        callback_mode_signed_def)

lemma body_valid_matches: "is_valid_match body_valid"
  unfolding body_valid_def
  using is_valid_match_contains [of "''ns:http://specs.openid.net/auth/2.0'' @ [CHR 0x0A]" "[CHR 0x0A]"]
  by simp

lemma body_invalid_no_match: "\<not> is_valid_match body_invalid"
  by (simp add: body_invalid_def is_valid_here_def ascii_upper_def is_space_def)

lemma idp_answering_text:
  "idp_answering body rq = Inr \<lparr> res_text = Inr body, res_json = Inl SyntaxError \<rparr>"
  by (simp add: idp_answering_def)

lemma steam_claimed_id:
  "IDENTIFIER_PATTERN ''https://steamcommunity.com/openid/id/76561197960287930'' =
     Some ''76561197960287930''"
  by (simp add: IDENTIFIER_PATTERN_iff is_digit_def)

lemma evil_claimed_id: "IDENTIFIER_PATTERN ''https://evil.example/openid/id/123'' = None"
proof (cases "IDENTIFIER_PATTERN ''https://evil.example/openid/id/123''")
  case None
  then show ?thesis .
next
  case (Some d)
  then show ?thesis by (simp add: IDENTIFIER_PATTERN_iff)
qed

text \<open>The verifier on the example callbacks.\<close>

lemma verify_callback_steam:
  "fst (verifyAssertion example_platform (idp_answering body_valid :: int fetch) callback_steam) =
     Inr (Some ''76561197960287930'')"
  by (simp add: verifyAssertion_answered [OF callbacks_nonempty(1) new_URL_callback_steam
          idp_answering_text]
        body_valid_matches map_of_token_url_params or_empty_eq get_def steam_claimed_id)

lemma verify_callback_evil:
  "fst (verifyAssertion example_platform (idp_answering body_valid :: int fetch) callback_evil) =
     Inr None"
  by (simp add: verifyAssertion_answered [OF callbacks_nonempty(2) new_URL_callback_evil
          idp_answering_text]
        body_valid_matches map_of_token_url_params or_empty_eq get_def evil_claimed_id)

lemma verify_callback_unsigned:
  "fst (verifyAssertion example_platform (idp_answering body_valid :: int fetch) callback_unsigned) =
     Inr None"
  by (simp add: verifyAssertion_answered [OF callbacks_nonempty(3) new_URL_callback_unsigned
          idp_answering_text]
        body_valid_matches map_of_token_url_params or_empty_eq get_def)

lemma verify_callback_steam_invalid:
  "fst (verifyAssertion example_platform (idp_answering body_invalid :: int fetch) callback_steam) =
     Inr None"
  by (simp add: verifyAssertion_answered [OF callbacks_nonempty(1) new_URL_callback_steam
          idp_answering_text]
        body_invalid_no_match)

section \<open>The token operation\<close>

text \<open>
  A token set is returned only for a non-empty request URL on which the verifier
  returned a non-empty identifier, which becomes the \<open>steamId\<close> of the token set.
\<close>

lemma token_request_returns_identifier:
  assumes "fst (Steam_token_request P req fetch uuidv4) = Inr ts"
  shows "steamId ts \<noteq> [] \<and>
         (\<exists>callback. url req = Some callback \<and> callback \<noteq> [] \<and>
            fst (verifyAssertion P fetch callback) = Inr (Some (steamId ts)))"
proof (cases "url req")
  case None
  with assms show ?thesis by (simp add: Steam_token_request_def)
next
  case (Some callback)
  obtain r sent where v: "verifyAssertion P fetch callback = (r, sent)"
    by (cases "verifyAssertion P fetch callback")
  from assms Some v show ?thesis
    by (auto simp add: Steam_token_request_def split: if_splits sum.splits option.splits)
qed

text \<open>
  Claim C1. \<open>token.request\<close> hands \<open>req.url\<close> to the verifier only when it is non-empty
  (the guard on \<open>!req.url\<close> comes first). For every such callback URL on which the
  verifier yields no identifier (\<open>null\<close>), \<open>token.request\<close> throws \<open>Unauthenticated\<close>; it
  returns no token set, and so none with an empty \<open>steamId\<close>.
\<close>

theorem token_request_without_identifier:
  assumes "url req = Some callback"
    and "callback \<noteq> []"
    and "fst (verifyAssertion P fetch callback) = Inr None"
  shows "fst (Steam_token_request P req fetch uuid) = Inl (Error ''Unauthenticated'') \<and>
         (\<forall>ts. fst (Steam_token_request P req fetch uuid) \<noteq> Inr ts)"
proof -
  obtain r sent where v: "verifyAssertion P fetch callback = (r, sent)"
    by (cases "verifyAssertion P fetch callback")
  with assms(3) have "r = Inr None" by simp
  with assms(1,2) v show ?thesis by (simp add: Steam_token_request_def)
qed

theorem token_request_without_identifier_witness:
  "url \<lparr> url = Some callback_evil \<rparr> = Some callback_evil \<and>
   callback_evil \<noteq> [] \<and>
   fst (verifyAssertion example_platform (idp_answering body_valid :: int fetch) callback_evil) =
     Inr None \<and>
   fst (Steam_token_request example_platform \<lparr> url = Some callback_evil \<rparr>
          (idp_answering body_valid :: int fetch) example_uuidv4) =
     Inl (Error ''Unauthenticated'')"
proof -
  have u: "url \<lparr> url = Some callback_evil \<rparr> = Some callback_evil"
    by simp
  note t = token_request_without_identifier
             [where fetch = "idp_answering body_valid :: int fetch" and uuid = example_uuidv4,
              OF u callbacks_nonempty(2) verify_callback_evil]
  from u callbacks_nonempty(2) verify_callback_evil t [THEN conjunct1]
  show ?thesis by (intro conjI)
qed

section \<open>Returned identifiers and posted parameters\<close>

text \<open>
  Claim C2. Whenever \<open>verifyAssertion\<close> returns an identifier, the URL parsed, the POST was
  answered with a body that matches \<open>/is_valid\s*:\s*true/i\<close>, and the
  \<open>openid.claimed_id\<close> of the outgoing request \<open>token_url_params\<close> matches the identifier
  pattern with the returned identifier as its group: it is \<open>http://\<close> or \<open>https://\<close>,
  then \<open>steamcommunity.com/openid/id/\<close>, then the identifier, one or more digits and
  nothing else. (The code anchors the pattern at both ends.) So a claimed id of any other
  shape, such as \<open>https://evil.example/openid/id/123\<close>, yields no identifier whatever the
  body says; \<open>verify_callback_evil\<close> evaluates that example.
\<close>

theorem identifier_only_when_valid_and_shaped:
  assumes "fst (verifyAssertion P fetch callback) = Inr (Some identifier)"
  shows "\<exists>u token_res result cid.
           new_URL P callback = Some u \<and>
           fetch (check_authentication_request P (token_url_params (searchParams u))) =
             Inr token_res \<and>
           res_text token_res = Inr result \<and>
           is_valid_match result \<and>
           get (token_url_params (searchParams u)) ''openid.claimed_id'' = Some cid \<and>
           IDENTIFIER_PATTERN cid = Some identifier \<and>
           (cid = ''https://steamcommunity.com/openid/id/'' @ identifier \<or>
            cid = ''http://steamcommunity.com/openid/id/'' @ identifier) \<and>
           identifier \<noteq> [] \<and> list_all is_digit identifier"
proof -
  from assms obtain u where u: "new_URL P callback = Some u"
    by (cases "new_URL P callback") (simp_all add: verifyAssertion_def split: if_splits)
  let ?tup = "token_url_params (searchParams u)"
  from assms u obtain token_res where
    f: "fetch (check_authentication_request P ?tup) = Inr token_res"
    by (cases "fetch (check_authentication_request P ?tup)")
       (simp_all add: verifyAssertion_def Let_def split: if_splits)
  from assms u f obtain result where t: "res_text token_res = Inr result"
    by (cases "res_text token_res")
       (simp_all add: verifyAssertion_def Let_def split: if_splits)
  from assms u f t have v: "is_valid_match result"
    by (cases "is_valid_match result")
       (simp_all add: verifyAssertion_def Let_def split: if_splits)
  from assms u f t v obtain cid where c: "get ?tup ''openid.claimed_id'' = Some cid"
    by (cases "get ?tup ''openid.claimed_id''")
       (simp_all add: verifyAssertion_def Let_def split: if_splits)
  from assms u f t v c have p: "IDENTIFIER_PATTERN cid = Some identifier"
    by (simp add: verifyAssertion_def Let_def split: if_splits)
  note s = IDENTIFIER_PATTERN_iff [THEN iffD1, OF p]
  show ?thesis
    apply (rule exI [where x = u])
    apply (rule exI [where x = token_res])
    apply (rule exI [where x = result])
    apply (rule exI [where x = cid])
    apply (intro conjI)
           apply (rule u)
          apply (rule f)
         apply (rule t)
        apply (rule v)
       apply (rule c)
      apply (rule p)
     apply (rule s [THEN conjunct1])
    apply (rule s [THEN conjunct2, THEN conjunct1])
    apply (rule s [THEN conjunct2, THEN conjunct2])
    done
qed

theorem identifier_only_when_valid_and_shaped_witness:
  "fst (verifyAssertion example_platform (idp_answering body_valid :: int fetch) callback_steam) =
     Inr (Some ''76561197960287930'') \<and>
   (\<exists>u token_res result cid.
      new_URL example_platform callback_steam = Some u \<and>
      (idp_answering body_valid :: int fetch)
        (check_authentication_request example_platform (token_url_params (searchParams u))) =
        Inr token_res \<and>
      res_text token_res = Inr result \<and>
      is_valid_match result \<and>
      get (token_url_params (searchParams u)) ''openid.claimed_id'' = Some cid \<and>
      IDENTIFIER_PATTERN cid = Some ''76561197960287930'' \<and>
      (cid = ''https://steamcommunity.com/openid/id/'' @ ''76561197960287930'' \<or>
       cid = ''http://steamcommunity.com/openid/id/'' @ ''76561197960287930'') \<and>
      ''76561197960287930'' \<noteq> [] \<and> list_all is_digit ''76561197960287930'')"
  using verify_callback_steam identifier_only_when_valid_and_shaped [OF verify_callback_steam]
  by (rule conjI)

text \<open>
  Claim C3. For every callback URL that parses, every name \<open>n\<close> of the comma-separated
  \<open>openid.signed\<close> list is a key \<open>openid.n\<close> of the parameters the verifier posts (the
  request it hands to \<open>fetch\<close> is built from exactly these parameters), and its value is
  the callback's \<open>openid.n\<close>, or the empty string when the callback has no such
  parameter: the field is present, never left out. This holds for the empty list as well.
\<close>

theorem signed_fields_echoed:
  assumes "callback \<noteq> []"
    and "new_URL P callback = Some u"
    and "n \<in> set (split (or_empty (get (searchParams u) ''openid.signed'')) CHR '','')"
  shows "snd (verifyAssertion P fetch callback) =
           [check_authentication_request P (token_url_params (searchParams u))] \<and>
         get (token_url_params (searchParams u)) (''openid.'' @ n) =
           Some (case get (searchParams u) (''openid.'' @ n) of None \<Rightarrow> [] | Some v \<Rightarrow> v)"
proof (rule conjI)
  from assms(1,2) show
    "snd (verifyAssertion P fetch callback) =
       [check_authentication_request P (token_url_params (searchParams u))]"
    by (simp add: verifyAssertion_sent)
  from assms(3) show
    "get (token_url_params (searchParams u)) (''openid.'' @ n) =
       Some (case get (searchParams u) (''openid.'' @ n) of None \<Rightarrow> [] | Some v \<Rightarrow> v)"
    unfolding get_token_url_params or_empty_eq [symmetric] by simp
qed

theorem signed_fields_echoed_witness:
  "callback_steam \<noteq> [] \<and>
   ''identity'' \<in> set (split (or_empty (get
       [(''openid.signed'', ''claimed_id,identity''),
        (''openid.claimed_id'', ''https://steamcommunity.com/openid/id/76561197960287930'')]
       ''openid.signed'')) CHR '','') \<and>
   snd (verifyAssertion example_platform (idp_answering body_valid :: int fetch)
          callback_steam) =
     [check_authentication_request example_platform
        (token_url_params
           [(''openid.signed'', ''claimed_id,identity''),
            (''openid.claimed_id'',
             ''https://steamcommunity.com/openid/id/76561197960287930'')])] \<and>
   get (token_url_params
          [(''openid.signed'', ''claimed_id,identity''),
           (''openid.claimed_id'', ''https://steamcommunity.com/openid/id/76561197960287930'')])
       ''openid.identity'' = Some []"
proof -
  have h: "''identity'' \<in> set (split (or_empty (get
       [(''openid.signed'', ''claimed_id,identity''),
        (''openid.claimed_id'', ''https://steamcommunity.com/openid/id/76561197960287930'')]
       ''openid.signed'')) CHR '','')"
    by (simp add: get_def or_empty_def)
  have g: "get [(''openid.signed'', ''claimed_id,identity''),
        (''openid.claimed_id'', ''https://steamcommunity.com/openid/id/76561197960287930'')]
       ''openid.identity'' = None"
    by (simp add: get_def)
  from signed_fields_echoed [OF callbacks_nonempty(1) new_URL_callback_steam,
         of "''identity''" "idp_answering body_valid :: int fetch"] h g
  have "snd (verifyAssertion example_platform (idp_answering body_valid :: int fetch)
          callback_steam) =
     [check_authentication_request example_platform
        (token_url_params
           [(''openid.signed'', ''claimed_id,identity''),
            (''openid.claimed_id'',
             ''https://steamcommunity.com/openid/id/76561197960287930'')])] \<and>
   get (token_url_params
          [(''openid.signed'', ''claimed_id,identity''),
           (''openid.claimed_id'', ''https://steamcommunity.com/openid/id/76561197960287930'')])
       ''openid.identity'' = Some []"
    by simp
  then have "snd (verifyAssertion example_platform (idp_answering body_valid :: int fetch)
          callback_steam) =
     [check_authentication_request example_platform
        (token_url_params
           [(''openid.signed'', ''claimed_id,identity''),
            (''openid.claimed_id'',
             ''https://steamcommunity.com/openid/id/76561197960287930'')])]"
    and "get (token_url_params
          [(''openid.signed'', ''claimed_id,identity''),
           (''openid.claimed_id'', ''https://steamcommunity.com/openid/id/76561197960287930'')])
       ''openid.identity'' = Some []"
    by (rule conjunct1, rule conjunct2)
  with callbacks_nonempty(1) h show ?thesis by (intro conjI)
qed

lemma token_url_params_unsigned:
  assumes "get sp ''openid.signed'' = None"
  shows "token_url_params sp =
           [(''openid.assoc_handle'', or_empty (get sp ''openid.assoc_handle'')),
            (''openid.signed'', []),
            (''openid.sig'', or_empty (get sp ''openid.sig'')),
            (''openid.ns'', ''http://specs.openid.net/auth/2.0''),
            (''openid.mode'', ''check_authentication''),
            (''openid.'', or_empty (get sp ''openid.''))]"
  using assms by (simp add: token_url_params_def token_params_def or_empty_def)

lemma openid_key_in_signed:
  "(''openid.'' @ n \<in> (\<lambda>val. ''openid.'' @ val) ` S) = (n \<in> S)"
  by auto

lemma mode_and_ns_unless_signed:
  assumes "''mode'' \<notin> set (split (or_empty (get sp ''openid.signed'')) CHR '','')"
    and "''ns'' \<notin> set (split (or_empty (get sp ''openid.signed'')) CHR '','')"
  shows "get (token_url_params sp) ''openid.mode'' = Some ''check_authentication''"
    and "get (token_url_params sp) ''openid.ns'' = Some ''http://specs.openid.net/auth/2.0''"
  using assms openid_key_in_signed [of "''mode''"] openid_key_in_signed [of "''ns''"]
  by (simp_all add: get_token_url_params)

lemma unsigned_body:
  "rq_body (check_authentication_request example_platform
        [(''openid.assoc_handle'', []),
         (''openid.signed'', []),
         (''openid.sig'', []),
         (''openid.ns'', ''http://specs.openid.net/auth/2.0''),
         (''openid.mode'', ''check_authentication''),
         (''openid.'', [])]) =
   Some ''openid.assoc_handle=&openid.signed=&openid.sig=&openid.ns=http%3A%2F%2Fspecs.openid.net%2Fauth%2F2.0&openid.mode=check_authentication&openid.=''"
  by (simp add: check_authentication_request_def example_platform_def urlencode_char_def
        urlencode_byte_def)

lemma mode_signed_body:
  "rq_body (check_authentication_request example_platform
        [(''openid.assoc_handle'', []),
         (''openid.signed'', ''mode,ns''),
         (''openid.sig'', []),
         (''openid.ns'', []),
         (''openid.mode'', ''id_res'')]) =
   Some ''openid.assoc_handle=&openid.signed=mode%2Cns&openid.sig=&openid.ns=&openid.mode=id_res''"
  by (simp add: check_authentication_request_def example_platform_def urlencode_char_def
        urlencode_byte_def)

text \<open>
  Claim C4, evaluated at a callback URL whose query has no \<open>openid.signed\<close>: the request
  the verifier posts has six parameters, not five. \<open>''.split(',')\<close> is \<open>['']\<close>, so the loop
  runs once with the empty name and adds the key \<open>openid.\<close> with an empty value; the
  body ends in \<open>&openid.=\<close>. (\<open>token_url_params_unsigned\<close> shows the same six keys for
  every callback without \<open>openid.signed\<close>.)
\<close>

theorem unsigned_callback_request:
  "snd (verifyAssertion example_platform (idp_answering body_invalid :: int fetch)
          callback_unsigned) =
     [check_authentication_request example_platform
        [(''openid.assoc_handle'', []),
         (''openid.signed'', []),
         (''openid.sig'', []),
         (''openid.ns'', ''http://specs.openid.net/auth/2.0''),
         (''openid.mode'', ''check_authentication''),
         (''openid.'', [])]] \<and>
   rq_body (check_authentication_request example_platform
        [(''openid.assoc_handle'', []),
         (''openid.signed'', []),
         (''openid.sig'', []),
         (''openid.ns'', ''http://specs.openid.net/auth/2.0''),
         (''openid.mode'', ''check_authentication''),
         (''openid.'', [])]) =
   Some ''openid.assoc_handle=&openid.signed=&openid.sig=&openid.ns=http%3A%2F%2Fspecs.openid.net%2Fauth%2F2.0&openid.mode=check_authentication&openid.=''"
proof (rule conjI)
  show "snd (verifyAssertion example_platform (idp_answering body_invalid :: int fetch)
          callback_unsigned) =
     [check_authentication_request example_platform
        [(''openid.assoc_handle'', []),
         (''openid.signed'', []),
         (''openid.sig'', []),
         (''openid.ns'', ''http://specs.openid.net/auth/2.0''),
         (''openid.mode'', ''check_authentication''),
         (''openid.'', [])]]"
    by (simp add: verifyAssertion_sent callbacks_nonempty new_URL_callback_unsigned
          token_url_params_unsigned get_def or_empty_def)
qed (rule unsigned_body)

text \<open>
  Claim C5, evaluated at a callback URL whose \<open>openid.signed\<close> list names \<open>mode\<close> and
  \<open>ns\<close>: the spread of \<open>token_params\<close> comes after the literal properties and overwrites
  them, so the request the verifier posts carries the callback's \<open>openid.mode\<close>
  (\<open>id_res\<close>) instead of \<open>check_authentication\<close>, and an empty \<open>openid.ns\<close>.
  (\<open>mode_and_ns_unless_signed\<close>: both have the fixed values whenever the list names
  neither.)
\<close>

theorem mode_signed_callback_request:
  "snd (verifyAssertion example_platform (idp_answering body_invalid :: int fetch)
          callback_mode_signed) =
     [check_authentication_request example_platform
        [(''openid.assoc_handle'', []),
         (''openid.signed'', ''mode,ns''),
         (''openid.sig'', []),
         (''openid.ns'', []),
         (''openid.mode'', ''id_res'')]] \<and>
   rq_body (check_authentication_request example_platform
        [(''openid.assoc_handle'', []),
         (''openid.signed'', ''mode,ns''),
         (''openid.sig'', []),
         (''openid.ns'', []),
         (''openid.mode'', ''id_res'')]) =
   Some ''openid.assoc_handle=&openid.signed=mode%2Cns&openid.sig=&openid.ns=&openid.mode=id_res''"
proof (rule conjI)
  show "snd (verifyAssertion example_platform (idp_answering body_invalid :: int fetch)
          callback_mode_signed) =
     [check_authentication_request example_platform
        [(''openid.assoc_handle'', []),
         (''openid.signed'', ''mode,ns''),
         (''openid.sig'', []),
         (''openid.ns'', []),
         (''openid.mode'', ''id_res'')]]"
    by (simp add: verifyAssertion_sent callbacks_nonempty new_URL_callback_mode_signed
          token_url_params_def token_params_def get_def or_empty_def)
qed (rule mode_signed_body)

text \<open>
  Claim C6, as amended. For a callback URL that carries the claimed id
  \<open>https://steamcommunity.com/openid/id/76561197960287930\<close> and names \<open>claimed_id\<close> in its
  \<open>openid.signed\<close> list, and a response body containing \<open>is_valid:true\<close>, the verifier
  returns \<open>76561197960287930\<close>; the claimed id it matches is the one of the outgoing
  request, which has it because the signed list names it.
\<close>

theorem signed_steam_claimed_id_verified:
  assumes "callback \<noteq> []"
    and "new_URL P callback = Some u"
    and "''claimed_id'' \<in> set (split (or_empty (get (searchParams u) ''openid.signed'')) CHR '','')"
    and "get (searchParams u) ''openid.claimed_id'' =
           Some ''https://steamcommunity.com/openid/id/76561197960287930''"
    and "fetch (check_authentication_request P (token_url_params (searchParams u))) = Inr token_res"
    and "res_text token_res = Inr (pre @ ''is_valid:true'' @ post)"
  shows "fst (verifyAssertion P fetch callback) = Inr (Some ''76561197960287930'') \<and>
         get (token_url_params (searchParams u)) ''openid.claimed_id'' =
           Some ''https://steamcommunity.com/openid/id/76561197960287930''"
proof -
  let ?tup = "token_url_params (searchParams u)"
  have "''openid.'' @ ''claimed_id'' \<in>
          (\<lambda>val. ''openid.'' @ val) `
            set (split (or_empty (get (searchParams u) ''openid.signed'')) CHR '','')"
    using assms(3) by (rule imageI)
  then have c: "get ?tup ''openid.claimed_id'' =
                  Some ''https://steamcommunity.com/openid/id/76561197960287930''"
    using assms(4) by (simp add: get_token_url_params or_empty_eq)
  have r: "fst (verifyAssertion P fetch callback) = Inr (Some ''76561197960287930'')"
    unfolding verifyAssertion_answered [where fetch = fetch, OF assms(1,2,5,6)]
    by (simp only: fst_conv is_valid_match_contains if_True c option.case steam_claimed_id)
  from r c show ?thesis by (rule conjI)
qed

theorem signed_steam_claimed_id_verified_witness:
  "fst (verifyAssertion example_platform (idp_answering body_valid :: int fetch) callback_steam) =
     Inr (Some ''76561197960287930'') \<and>
   get (token_url_params
          (searchParams
             \<lparr> href = callback_steam, origin = ''https://app.example'',
               searchParams =
                 [(''openid.signed'', ''claimed_id,identity''),
                  (''openid.claimed_id'',
                   ''https://steamcommunity.com/openid/id/76561197960287930'')] \<rparr>))
       ''openid.claimed_id'' =
     Some ''https://steamcommunity.com/openid/id/76561197960287930''"
proof -
  have s: "''claimed_id'' \<in> set (split (or_empty (get (searchParams
             \<lparr> href = callback_steam, origin = ''https://app.example'',
               searchParams =
                 [(''openid.signed'', ''claimed_id,identity''),
                  (''openid.claimed_id'',
                   ''https://steamcommunity.com/openid/id/76561197960287930'')] \<rparr>)
             ''openid.signed'')) CHR '','')"
    by (simp add: get_def or_empty_def)
  have g: "get (searchParams
             \<lparr> href = callback_steam, origin = ''https://app.example'',
               searchParams =
                 [(''openid.signed'', ''claimed_id,identity''),
                  (''openid.claimed_id'',
                   ''https://steamcommunity.com/openid/id/76561197960287930'')] \<rparr>)
             ''openid.claimed_id'' =
           Some ''https://steamcommunity.com/openid/id/76561197960287930''"
    by (simp add: get_def)
  have t: "res_text \<lparr> res_text = Inr body_valid, res_json = Inl SyntaxError :: js_error + int js_value \<rparr> =
             Inr ((''ns:http://specs.openid.net/auth/2.0'' @ [CHR 0x0A]) @ ''is_valid:true'' @ [CHR 0x0A])"
    by (simp add: body_valid_def)
  show ?thesis
    by (rule signed_steam_claimed_id_verified
          [where fetch = "idp_answering body_valid :: int fetch",
           OF callbacks_nonempty(1) new_URL_callback_steam s g idp_answering_text t])
qed

text \<open>
  Claim C6 as stated fails when the callback carries the claimed id but its signed list
  does not name it: the outgoing request then has no \<open>openid.claimed_id\<close>, and the
  verifier returns \<open>null\<close> although the body says \<open>is_valid:true\<close>.
\<close>

theorem unsigned_claimed_id_counterexample:
  "new_URL example_platform callback_unsigned =
     Some \<lparr> href = callback_unsigned, origin = ''https://app.example'',
            searchParams =
              [(''openid.claimed_id'',
                ''https://steamcommunity.com/openid/id/76561197960287930'')] \<rparr> \<and>
   get [(''openid.claimed_id'', ''https://steamcommunity.com/openid/id/76561197960287930'')]
       ''openid.claimed_id'' =
     Some ''https://steamcommunity.com/openid/id/76561197960287930'' \<and>
   is_valid_match body_valid \<and>
   fst (verifyAssertion example_platform (idp_answering body_valid :: int fetch)
          callback_unsigned) = Inr None"
  by (simp add: new_URL_callback_unsigned get_def body_valid_matches verify_callback_unsigned)

text \<open>
  Claim C7. Whenever the POST is answered with a body that does not match
  \<open>/is_valid\s*:\s*true/i\<close> (\<open>is_valid:false\<close>, say), the verifier returns \<open>null\<close> and throws
  nothing.
\<close>

theorem body_without_marker_yields_null:
  assumes "new_URL P callback = Some u"
    and "fetch (check_authentication_request P (token_url_params (searchParams u))) = Inr token_res"
    and "res_text token_res = Inr result"
    and "\<not> is_valid_match result"
  shows "fst (verifyAssertion P fetch callback) = Inr None"
proof (cases "callback = []")
  case True
  then show ?thesis by (simp add: verifyAssertion_empty)
next
  case False
  from verifyAssertion_answered [where fetch = fetch, OF False assms(1-3)] assms(4)
  show ?thesis by simp
qed

theorem body_without_marker_yields_null_witness:
  "new_URL example_platform callback_steam \<noteq> None \<and>
   \<not> is_valid_match body_invalid \<and>
   fst (verifyAssertion example_platform (idp_answering body_invalid :: int fetch)
          callback_steam) = Inr None"
proof -
  have t: "res_text \<lparr> res_text = Inr body_invalid, res_json = Inl SyntaxError :: js_error + int js_value \<rparr> =
             Inr body_invalid"
    by simp
  from body_without_marker_yields_null
         [where fetch = "idp_answering body_invalid :: int fetch",
          OF new_URL_callback_steam idp_answering_text t body_invalid_no_match]
  show ?thesis
    by (simp add: new_URL_callback_steam body_invalid_no_match)
qed

section \<open>The provider: construction, userinfo, missing URL\<close>

text \<open>
  Claim C8, as amended. When the secret is absent or empty, \<open>Steam\<close> throws at once and
  no request has been handed to \<open>fetch\<close>. The error is \<open>Steam API key is missing\<close> whenever
  the configured callback URL parses; the URL is parsed before the secret is checked,
  so an unparsable one gives the URL constructor's TypeError instead.
\<close>

theorem Steam_without_secret:
  assumes "clientSecret opts = None \<or> clientSecret opts = Some []"
  shows "Steam P req opts =
           (Inl (case new_URL P (callbackUrl opts) of
                   None \<Rightarrow> TypeError
                 | Some cb \<Rightarrow> Error ''Steam API key is missing''),
            [])"
  using assms
  by (auto simp add: Steam_def Let_def falsy_def length_below_1_def split: option.splits)

theorem Steam_without_secret_witness:
  "(clientSecret \<lparr> callbackUrl = callback_base, clientSecret = Some [] \<rparr> = None \<or>
    clientSecret \<lparr> callbackUrl = callback_base, clientSecret = Some [] \<rparr> = Some []) \<and>
   (Steam example_platform \<lparr> url = Some callback_steam \<rparr>
      \<lparr> callbackUrl = callback_base, clientSecret = Some [] \<rparr>
      :: (js_error + int OAuthConfig) \<times> http_request list) =
     (Inl (Error ''Steam API key is missing''), [])"
proof -
  have h: "clientSecret \<lparr> callbackUrl = callback_base, clientSecret = Some [] \<rparr> = None \<or>
           clientSecret \<lparr> callbackUrl = callback_base, clientSecret = Some [] \<rparr> = Some []"
    by simp
  from Steam_without_secret [OF h, of example_platform "\<lparr> url = Some callback_steam \<rparr>"] h
  show ?thesis by (simp add: new_URL_callback_base)
qed

text \<open>
  Claim C8 as stated fails for an empty secret together with a callback URL that does
  not parse: the error is the TypeError, not the missing-key error.
\<close>

theorem Steam_unparsable_callback_counterexample:
  "clientSecret \<lparr> callbackUrl = ''not a url'', clientSecret = Some [] \<rparr> = Some [] \<and>
   (Steam example_platform \<lparr> url = Some callback_steam \<rparr>
      \<lparr> callbackUrl = ''not a url'', clientSecret = Some [] \<rparr>
      :: (js_error + int OAuthConfig) \<times> http_request list) = (Inl TypeError, []) \<and>
   (Steam example_platform \<lparr> url = Some callback_steam \<rparr>
      \<lparr> callbackUrl = ''not a url'', clientSecret = Some [] \<rparr>
      :: (js_error + int OAuthConfig) \<times> http_request list) \<noteq>
     (Inl (Error ''Steam API key is missing''), [])"
  by (simp add: Steam_def new_URL_not_a_url)

text \<open>
  Claim C9, as amended. When the profile API answers with a document whose
  \<open>response.players\<close> is the empty array, \<open>userinfo.request\<close> throws nothing and returns
  \<open>undefined\<close>, the value of \<open>players[0]\<close>; the code has no check on the response and no
  profile error of its own.
\<close>

theorem userinfo_empty_players:
  assumes "fetch (profile_request P context) = Inr response"
    and "res_json response = Inr data"
    and "get_member data ''response'' = Inr r"
    and "get_member r ''players'' = Inr (Array [])"
  shows "Steam_userinfo_request P fetch context = (Inr Undefined, [profile_request P context])"
  using assms by (simp add: Steam_userinfo_request_def Let_def)

theorem userinfo_empty_players_witness:
  "get_member (no_players :: int js_value) ''response'' = Inr (Object [(''players'', Array [])]) \<and>
   get_member (Object [(''players'', Array [])] :: int js_value) ''players'' = Inr (Array []) \<and>
   Steam_userinfo_request example_platform (profile_api_answering no_players :: int fetch)
     \<lparr> provider_clientSecret = ''0123456789ABCDEF0123456789ABCDEF'',
       tokens_steamId = ''76561197960287930'' \<rparr> =
     (Inr Undefined,
      [profile_request example_platform
         \<lparr> provider_clientSecret = ''0123456789ABCDEF0123456789ABCDEF'',
           tokens_steamId = ''76561197960287930'' \<rparr>])"
proof -
  have a: "get_member (no_players :: int js_value) ''response'' =
             Inr (Object [(''players'', Array [])])"
    by (simp add: no_players_def)
  have b: "get_member (Object [(''players'', Array [])] :: int js_value) ''players'' =
             Inr (Array [])"
    by simp
  have f: "(profile_api_answering no_players :: int fetch) rq =
             Inr \<lparr> res_text = Inr [], res_json = Inr no_players \<rparr>" for rq
    by (simp add: profile_api_answering_def)
  have j: "res_json \<lparr> res_text = Inr [], res_json = Inr (no_players :: int js_value) \<rparr> =
             Inr no_players"
    by simp
  from a b userinfo_empty_players
         [where fetch = "profile_api_answering no_players :: int fetch", OF f j a b]
  show ?thesis by (intro conjI)
qed

text \<open>
  Claim C9 as stated fails at \<open>{"response": {"players": []}}\<close>: the operation does not
  fail, it returns \<open>undefined\<close>.
\<close>

theorem userinfo_empty_players_counterexample:
  "fst (Steam_userinfo_request example_platform (profile_api_answering no_players :: int fetch)
          \<lparr> provider_clientSecret = ''0123456789ABCDEF0123456789ABCDEF'',
            tokens_steamId = ''76561197960287930'' \<rparr>) = Inr Undefined"
  by (simp add: Steam_userinfo_request_def Let_def profile_api_answering_def no_players_def)

text \<open>
  Claim C10. The verifier is called from \<open>token.request\<close> only, behind the guard on
  \<open>req.url\<close>; that guard is where a callback URL can be absent or empty. For every such
  request \<open>token.request\<close> throws \<open>No URL found in request object\<close>, an error other than
  the \<open>Unauthenticated\<close> of a negative verification, and nothing has been handed to
  \<open>fetch\<close>: no verification POST is sent.
\<close>

theorem missing_callback_url:
  assumes "url req = None \<or> url req = Some []"
  shows "Steam_token_request P req fetch uuid =
           (Inl (Error ''No URL found in request object''), []) \<and>
         fst (Steam_token_request P req fetch uuid) \<noteq> Inl (Error ''Unauthenticated'')"
  using assms by (auto simp add: Steam_token_request_def)

theorem missing_callback_url_witness:
  "(url \<lparr> url = Some [] \<rparr> = None \<or> url \<lparr> url = Some [] \<rparr> = Some []) \<and>
   Steam_token_request example_platform \<lparr> url = Some [] \<rparr>
     (idp_answering body_valid :: int fetch) example_uuidv4 =
     (Inl (Error ''No URL found in request object''), []) \<and>
   fst (Steam_token_request example_platform \<lparr> url = Some [] \<rparr>
          (idp_answering body_valid :: int fetch) example_uuidv4) \<noteq>
     Inl (Error ''Unauthenticated'')"
proof -
  have h: "url \<lparr> url = Some [] \<rparr> = None \<or> url \<lparr> url = Some [] \<rparr> = Some []"
    by simp
  note t = missing_callback_url
             [where P = example_platform and fetch = "idp_answering body_valid :: int fetch"
                and uuid = example_uuidv4, OF h]
  from h t [THEN conjunct1] t [THEN conjunct2] show ?thesis by (intro conjI)
qed

end
